theory Spec2Isabelle
  imports Complex_Main
begin

section \<open>FlashInfer attention backend: metadata, session lifecycle and dispatch\<close>

text \<open>
  A shallow embedding of \<^verbatim>\<open>vllm/attention/backends/flashinfer.py\<close>.
  Python exceptions are values of \<open>error\<close>; a method that mutates \<^verbatim>\<open>self\<close> or an
  external object returns the updated object and the updated world beside its result.
\<close>

subsection \<open>Errors\<close>

text \<open>
  One constructor per Python exception class that the file can raise, carrying the message
  (the empty string for a bare \<^verbatim>\<open>assert\<close>). \<open>ExternalError\<close> stands for whatever an
  external kernel raises.
\<close>

datatype error =
    ValueError string
  | AssertionError string
  | NotImplementedError string
  | RuntimeError string
  | IndexError string
  | ZeroDivisionError
  | ExternalError string

subsection \<open>Tensors\<close>

text \<open>
  A tensor is known here by its identity (\<open>tid\<close>), the device it lives on, its shape and
  its flattened contents. The contents are given for the integer page arrays; those of
  query, key, value, cache and output tensors are never read by this file and are left
  empty. Memory layout (strides, contiguity) is not represented.
\<close>

datatype device = CPU | CUDA nat

record tensor =
  tid :: nat
  dev :: device
  shape :: "nat list"
  elems :: "int list"

definition numel :: "tensor \<Rightarrow> nat" where
  "numel t = prod_list (shape t)"

text \<open>
  \<^verbatim>\<open>t.view(-1, a, b)\<close>: the first dimension is inferred. torch raises a RuntimeError when
  \<open>a\<close> or \<open>b\<close> is not positive (a second \<open>-1\<close>, an invalid dimension, or an ambiguous
  inference over a zero) and when the element count is not a multiple of \<open>a * b\<close>.
\<close>

definition view_infer :: "tensor \<Rightarrow> int \<Rightarrow> int \<Rightarrow> error + tensor" where
  "view_infer t a b =
     (if a \<le> 0 \<or> b \<le> 0 then Inl (RuntimeError ''invalid shape'')
      else if int (numel t) mod (a * b) \<noteq> 0 then Inl (RuntimeError ''invalid shape'')
      else Inr (t\<lparr>shape := [numel t div nat (a * b), nat a, nat b]\<rparr>))"

text \<open>\<^verbatim>\<open>t.view(n, h)\<close> with both dimensions given.\<close>

definition view2 :: "tensor \<Rightarrow> nat \<Rightarrow> nat \<Rightarrow> error + tensor" where
  "view2 t n h =
     (if numel t = n * h then Inr (t\<lparr>shape := [n, h]\<rparr>)
      else Inl (RuntimeError ''invalid shape''))"

text \<open>\<^verbatim>\<open>t[:, i]\<close>: needs at least two dimensions and \<open>i\<close> inside the second.\<close>

definition select_dim1 :: "tensor \<Rightarrow> nat \<Rightarrow> error + tensor" where
  "select_dim1 t i =
     (case shape t of
        n # k # rest \<Rightarrow>
          (if i < k then Inr (t\<lparr>shape := n # rest\<rparr>)
           else Inl (IndexError ''index out of range''))
      | _ \<Rightarrow> Inl (IndexError ''too many indices''))"

definition flatten :: "tensor \<Rightarrow> tensor" where
  "flatten t = t\<lparr>shape := [numel t]\<rparr>"

text \<open>\<^verbatim>\<open>t.contiguous()\<close>: the same values; layout is not represented.\<close>

definition contiguous :: "tensor \<Rightarrow> tensor" where
  "contiguous t = t"

subsection \<open>The world outside the metadata object\<close>

text \<open>
  Modelled from the spec: the external kernel objects
  (\<^verbatim>\<open>BatchPrefillWithPagedKVCacheWrapper\<close>, \<^verbatim>\<open>BatchDecodeWithPagedKVCacheWrapper\<close>) belong
  to the flashinfer library. Following the KernelSession of the specification, a session
  holds the plans that are active in it: none when \<open>Idle\<close>, one when \<open>Planned\<close>.
  \<open>end_forward_session\<close> releases whatever is held and may be called when nothing is;
  \<open>begin_forward_session\<close> adds the plan built from its arguments.
\<close>

record plan =
  plan_query_start_loc :: "tensor option"
  plan_indptr :: "tensor option"
  plan_indices :: "tensor option"
  plan_last_page_len :: "tensor option"
  plan_num_qo_heads :: "int option"
  plan_num_kv_heads :: "int option"
  plan_head_dim :: "int option"
  plan_page_size :: "int option"
  plan_pos_encoding_mode :: "string option"
  plan_data_type :: "string option"

record KernelSession =
  plans :: "plan list"

definition end_forward_session :: "KernelSession \<Rightarrow> KernelSession" where
  "end_forward_session s = s\<lparr>plans := []\<rparr>"

definition begin_forward_session :: "plan \<Rightarrow> KernelSession \<Rightarrow> KernelSession" where
  "begin_forward_session p s = s\<lparr>plans := p # plans s\<rparr>"

text \<open>
  The metadata refers to its sessions by reference; the objects live in the world, together
  with the counter that names freshly allocated tensors.
\<close>

type_synonym wrapper_ref = nat

record world =
  sessions :: "wrapper_ref \<Rightarrow> KernelSession"
  next_tid :: nat

definition update_session :: "wrapper_ref \<Rightarrow> (KernelSession \<Rightarrow> KernelSession) \<Rightarrow> world \<Rightarrow> world" where
  "update_session r f w = w\<lparr>sessions := (sessions w)(r := f (sessions w r))\<rparr>"

text \<open>
  \<^verbatim>\<open>t.to(device)\<close>: a tensor already on the device is returned as it is (the same
  object); otherwise a new tensor with the same shape and contents is allocated there.
\<close>

definition to_device :: "tensor \<Rightarrow> device \<Rightarrow> world \<Rightarrow> tensor \<times> world" where
  "to_device t d w =
     (if dev t = d then (t, w)
      else (t\<lparr>tid := next_tid w, dev := d\<rparr>, w\<lparr>next_tid := next_tid w + 1\<rparr>))"

subsection \<open>FlashInferBackend\<close>

definition get_supported_head_sizes :: "int list" where
  "get_supported_head_sizes = [64, 128, 256]"

definition get_kv_cache_shape :: "int \<Rightarrow> int \<Rightarrow> int \<Rightarrow> int \<Rightarrow> int list" where
  "get_kv_cache_shape num_blocks block_size n_kv_heads h_size =
     [num_blocks, 2, block_size, n_kv_heads, h_size]"

subsection \<open>FlashInferMetadata\<close>

text \<open>
  The first four fields are inherited from \<^verbatim>\<open>AttentionMetadata\<close>; the others are declared
  by the dataclass, in its order.
\<close>

record FlashInferMetadata =
  num_prefills :: int
  num_prefill_tokens :: int
  num_decode_tokens :: int
  slot_mapping :: tensor
  max_prefill_seq_len :: int
  use_cuda_graph :: bool
  prefill_wrapper :: "wrapper_ref option"
  decode_wrapper :: "wrapper_ref option"
  seq_start_loc :: "tensor option"
  query_start_loc :: "tensor option"
  block_tables :: "tensor option"
  paged_kv_indptr :: "tensor option"
  paged_kv_indices :: "tensor option"
  paged_kv_last_page_len :: "tensor option"
  num_qo_heads :: "int option"
  num_kv_heads :: "int option"
  head_dim :: "int option"
  page_size :: "int option"
  data_type :: "string option"
  device :: device
  logits_soft_cap :: "real option"

text \<open>\<^verbatim>\<open>__post_init__\<close>, run at the end of construction.\<close>

definition post_init :: "FlashInferMetadata \<Rightarrow> error + FlashInferMetadata" where
  "post_init self =
     (case head_dim self of
        None \<Rightarrow> Inr self
      | Some h \<Rightarrow>
          (if h \<notin> set get_supported_head_sizes
           then Inl (ValueError ''Only [64, 128, 256] are supported for head_dim,'')
           else Inr self))"

text \<open>
  The block that both branches of \<^verbatim>\<open>begin_forward\<close> share: the three assertions on the
  page arrays, then the three \<^verbatim>\<open>.to(self.device)\<close> assignments.
\<close>

definition page_arrays_to_device ::
  "FlashInferMetadata \<Rightarrow> world \<Rightarrow> (error + unit) \<times> FlashInferMetadata \<times> world" where
  "page_arrays_to_device self w =
     (case paged_kv_indices self of
        None \<Rightarrow> (Inl (AssertionError ''''), self, w)
      | Some i \<Rightarrow>
     (case paged_kv_indptr self of
        None \<Rightarrow> (Inl (AssertionError ''''), self, w)
      | Some p \<Rightarrow>
     (case paged_kv_last_page_len self of
        None \<Rightarrow> (Inl (AssertionError ''''), self, w)
      | Some l \<Rightarrow>
          (let (i', w1) = to_device i (device self) w;
               (p', w2) = to_device p (device self) w1;
               (l', w3) = to_device l (device self) w2
           in (Inr (),
               self\<lparr>paged_kv_indices := Some i',
                    paged_kv_indptr := Some p',
                    paged_kv_last_page_len := Some l'\<rparr>,
               w3)))))"

definition prefill_plan :: "FlashInferMetadata \<Rightarrow> plan" where
  "prefill_plan self =
     \<lparr>plan_query_start_loc = query_start_loc self,
      plan_indptr = paged_kv_indptr self,
      plan_indices = paged_kv_indices self,
      plan_last_page_len = paged_kv_last_page_len self,
      plan_num_qo_heads = num_qo_heads self,
      plan_num_kv_heads = num_kv_heads self,
      plan_head_dim = head_dim self,
      plan_page_size = page_size self,
      plan_pos_encoding_mode = None,
      plan_data_type = None\<rparr>"

definition decode_plan :: "FlashInferMetadata \<Rightarrow> plan" where
  "decode_plan self =
     \<lparr>plan_query_start_loc = None,
      plan_indptr = paged_kv_indptr self,
      plan_indices = paged_kv_indices self,
      plan_last_page_len = paged_kv_last_page_len self,
      plan_num_qo_heads = num_qo_heads self,
      plan_num_kv_heads = num_kv_heads self,
      plan_head_dim = head_dim self,
      plan_page_size = page_size self,
      plan_pos_encoding_mode = Some ''NONE'',
      plan_data_type = data_type self\<rparr>"

text \<open>
  \<^verbatim>\<open>wrapper.end_forward()\<close> followed by \<^verbatim>\<open>wrapper.begin_forward(...)\<close> on the
  session that \<open>r\<close> refers to.
\<close>

definition replan :: "wrapper_ref \<Rightarrow> plan \<Rightarrow> world \<Rightarrow> world" where
  "replan r p w = update_session r (begin_forward_session p) (update_session r end_forward_session w)"

definition begin_forward ::
  "FlashInferMetadata \<Rightarrow> world \<Rightarrow> (error + unit) \<times> FlashInferMetadata \<times> world" where
  "begin_forward self w =
     (if num_prefill_tokens self > 0 then
        (if paged_kv_indices self = None then (Inr (), self, w)
         else
           (case prefill_wrapper self of
              None \<Rightarrow> (Inl (AssertionError ''''), self, w)
            | Some pw \<Rightarrow>
                (case page_arrays_to_device self w of
                   (Inl e, self1, w1) \<Rightarrow> (Inl e, self1, w1)
                 | (Inr u, self1, w1) \<Rightarrow>
                     (Inr (), self1, replan pw (prefill_plan self1) w1))))
      else
        (case (if use_cuda_graph self then (Inr (), self, w)
               else page_arrays_to_device self w) of
           (Inl e, self1, w1) \<Rightarrow> (Inl e, self1, w1)
         | (Inr u, self1, w1) \<Rightarrow>
             (case decode_wrapper self1 of
                None \<Rightarrow> (Inl (AssertionError ''''), self1, w1)
              | Some dw \<Rightarrow> (Inr (), self1, replan dw (decode_plan self1) w1))))"

text \<open>
  \<^verbatim>\<open>asdict_zerocopy\<close>. The inherited method of \<^verbatim>\<open>AttentionMetadata\<close> that it ends by
  calling is the parameter \<open>super_asdict\<close>; \<open>skip_fields\<close> is \<open>None\<close> when the argument
  is left out.
\<close>

definition asdict_zerocopy ::
  "(FlashInferMetadata \<Rightarrow> string set \<Rightarrow> (string \<rightharpoonup> 'v)) \<Rightarrow>
   FlashInferMetadata \<Rightarrow> string set option \<Rightarrow> (string \<rightharpoonup> 'v)" where
  "asdict_zerocopy super_asdict self skip_fields =
     (let s0 = (case skip_fields of None \<Rightarrow> {} | Some s \<Rightarrow> s);
          s1 = insert ''prefill_wrapper'' s0;
          s2 = insert ''decode_wrapper'' s1
      in super_asdict self s2)"

text \<open>The two classification properties.\<close>

definition prefill_metadata :: "FlashInferMetadata \<Rightarrow> error + FlashInferMetadata option" where
  "prefill_metadata self =
     (if num_decode_tokens self = 0 then
        (if num_prefills self > 0 then Inr (Some self) else Inl (AssertionError ''''))
      else Inr None)"

definition decode_metadata :: "FlashInferMetadata \<Rightarrow> error + FlashInferMetadata option" where
  "decode_metadata self =
     (if num_prefills self > 0 then
        (if num_decode_tokens self = 0 then Inr None else Inl (AssertionError ''''))
      else Inr (Some self))"

subsection \<open>FlashInferImpl\<close>

text \<open>
  Modelled from the spec: the enumeration \<^verbatim>\<open>AttentionType\<close> is declared in
  \<^verbatim>\<open>vllm/attention/backends/abstract.py\<close>: the decoder self-attention that \<^verbatim>\<open>forward\<close>
  accepts, and the encoder and encoder/decoder cross-attention variants that it rejects.
\<close>

datatype AttentionType = DECODER | ENCODER | ENCODER_DECODER

text \<open>
  The attributes set by \<^verbatim>\<open>__init__\<close>. \<^verbatim>\<open>num_kv_heads\<close> is \<open>impl_num_kv_heads\<close> here,
  the plain name being the metadata's field; \<open>alibi_slopes\<close> holds the values of the
  float32 tensor.
\<close>

record FlashInferImpl =
  num_heads :: int
  head_size :: int
  scale :: real
  impl_num_kv_heads :: int
  alibi_slopes :: "real list option"
  sliding_window :: "int \<times> int"
  kv_cache_dtype :: string
  num_queries_per_kv :: int

text \<open>
  \<^verbatim>\<open>__init__\<close>. \<^verbatim>\<open>torch.tensor(alibi_slopes, dtype=torch.float32)\<close> is the parameter
  \<open>float32_tensor\<close>: it gives the values that the float32 tensor holds for the slopes
  passed in. Python's \<^verbatim>\<open>%\<close> and \<^verbatim>\<open>//\<close> on integers round towards minus infinity, as
  \<open>mod\<close> and \<open>div\<close> on \<open>int\<close> do, and raise on a zero divisor.
\<close>

definition init ::
  "(real list \<Rightarrow> real list) \<Rightarrow> int \<Rightarrow> int \<Rightarrow> real \<Rightarrow> int \<Rightarrow> real list option \<Rightarrow> int option
   \<Rightarrow> string \<Rightarrow> 'p option \<Rightarrow> error + FlashInferImpl" where
  "init float32_tensor n_heads h_size sc n_kv_heads slopes window cache_dtype blocksparse_params =
     (let slopes32 = (case slopes of None \<Rightarrow> None | Some xs \<Rightarrow> Some (float32_tensor xs)) in
      if window \<noteq> None then Inl (ValueError ''Sliding window is not supported in FlashInfer.'')
      else if n_kv_heads = 0 then Inl ZeroDivisionError
      else if n_heads mod n_kv_heads \<noteq> 0 then Inl (AssertionError '''')
      else Inr \<lparr>num_heads = n_heads,
                head_size = h_size,
                scale = sc,
                impl_num_kv_heads = n_kv_heads,
                alibi_slopes = slopes32,
                sliding_window = (-1, -1),
                kv_cache_dtype = cache_dtype,
                num_queries_per_kv = n_heads div n_kv_heads\<rparr>)"

text \<open>The arguments of \<^verbatim>\<open>forward\<close>; \<^verbatim>\<open>value\<close> is \<open>value_arg\<close>.\<close>

record forward_args =
  query :: tensor
  key :: tensor
  value_arg :: tensor
  kv_cache :: "tensor option"
  attn_metadata :: FlashInferMetadata
  k_scale :: real
  v_scale :: real
  attn_type :: AttentionType

text \<open>
  The operations that \<^verbatim>\<open>forward\<close> calls outside this file are parameters: the cache
  write \<^verbatim>\<open>ops.reshape_and_cache_flash\<close> (\<open>None\<close> when it returns, \<open>Some e\<close> when it
  raises), the dense kernel \<^verbatim>\<open>flash_attn_varlen_func\<close>, and the \<^verbatim>\<open>forward\<close> methods of
  the two session objects.
\<close>

record varlen_args =
  arg_q :: tensor
  arg_k :: tensor
  arg_v :: tensor
  cu_seqlens_q :: "tensor option"
  cu_seqlens_k :: "tensor option"
  max_seqlen_q :: int
  max_seqlen_k :: int
  softmax_scale :: real
  causal :: bool
  window_size :: "int \<times> int"
  arg_alibi_slopes :: "real list option"

record externals =
  reshape_and_cache_flash ::
    "tensor \<Rightarrow> tensor \<Rightarrow> tensor \<Rightarrow> tensor \<Rightarrow> tensor \<Rightarrow> string \<Rightarrow> error option"
  flash_attn_varlen_func :: "varlen_args \<Rightarrow> error + tensor"
  prefill_wrapper_forward ::
    "wrapper_ref \<Rightarrow> tensor \<Rightarrow> tensor \<Rightarrow> real option \<Rightarrow> bool \<Rightarrow> error + tensor"
  decode_wrapper_forward ::
    "wrapper_ref \<Rightarrow> tensor \<Rightarrow> tensor option \<Rightarrow> real \<Rightarrow> real option \<Rightarrow> error + tensor"

text \<open>
  What a call of \<^verbatim>\<open>forward\<close> did, in order: the reshapes it made, the cache write it
  issued, and the kernel it invoked, which is the dispatch path.
\<close>

datatype path = DenseFallback | PagedPrefill wrapper_ref | PagedDecode wrapper_ref

datatype event = Reshape tensor | CacheWrite tensor | KernelCall path

fun kernel_paths :: "event list \<Rightarrow> path list" where
  "kernel_paths [] = []"
| "kernel_paths (KernelCall p # es) = p # kernel_paths es"
| "kernel_paths (e # es) = kernel_paths es"

fun cache_writes :: "event list \<Rightarrow> tensor list" where
  "cache_writes [] = []"
| "cache_writes (CacheWrite c # es) = c # cache_writes es"
| "cache_writes (e # es) = cache_writes es"

text \<open>Lines 249 to 258: the write of key and value into the two slabs of the cache.\<close>

definition write_cache ::
  "externals \<Rightarrow> FlashInferImpl \<Rightarrow> forward_args \<Rightarrow> tensor \<Rightarrow> tensor \<Rightarrow> (error + unit) \<times> event list" where
  "write_cache ext self a k v =
     (case kv_cache a of
        None \<Rightarrow> (Inr (), [])
      | Some c \<Rightarrow>
          (case select_dim1 c 0 of
             Inl e \<Rightarrow> (Inl e, [])
           | Inr key_slab \<Rightarrow>
          (case select_dim1 c 1 of
             Inl e \<Rightarrow> (Inl e, [])
           | Inr value_slab \<Rightarrow>
          (case reshape_and_cache_flash ext k v key_slab value_slab
                  (flatten (slot_mapping (attn_metadata a))) (kv_cache_dtype self) of
             Some e \<Rightarrow> (Inl e, [CacheWrite c])
           | None \<Rightarrow> (Inr (), [CacheWrite c])))))"

text \<open>Lines 260 to 296: the choice of the kernel and its invocation.\<close>

definition dispatch ::
  "externals \<Rightarrow> FlashInferImpl \<Rightarrow> forward_args \<Rightarrow> tensor \<Rightarrow> tensor \<Rightarrow> tensor
   \<Rightarrow> (error + tensor) \<times> event list" where
  "dispatch ext self a q0 k v =
     (let q = contiguous q0; m = attn_metadata a in
      case prefill_metadata m of
        Inl e \<Rightarrow> (Inl e, [])
      | Inr (Some prefill_meta) \<Rightarrow>
          (case kv_cache a of
             None \<Rightarrow>
               (flash_attn_varlen_func ext
                  \<lparr>arg_q = q, arg_k = k, arg_v = v,
                   cu_seqlens_q = seq_start_loc prefill_meta,
                   cu_seqlens_k = seq_start_loc prefill_meta,
                   max_seqlen_q = max_prefill_seq_len prefill_meta,
                   max_seqlen_k = max_prefill_seq_len prefill_meta,
                   softmax_scale = scale self,
                   causal = True,
                   window_size = sliding_window self,
                   arg_alibi_slopes = alibi_slopes self\<rparr>,
                [KernelCall DenseFallback])
           | Some c \<Rightarrow>
               (case prefill_wrapper prefill_meta of
                  None \<Rightarrow> (Inl (AssertionError ''''), [])
                | Some pw \<Rightarrow>
                    (prefill_wrapper_forward ext pw q c (logits_soft_cap m) True,
                     [KernelCall (PagedPrefill pw)])))
      | Inr None \<Rightarrow>
          (case decode_metadata m of
             Inl e \<Rightarrow> (Inl e, [])
           | Inr None \<Rightarrow> (Inl (AssertionError ''''), [])
           | Inr (Some decode_meta) \<Rightarrow>
               (case decode_wrapper decode_meta of
                  None \<Rightarrow> (Inl (AssertionError ''''), [])
                | Some dw \<Rightarrow>
                    (decode_wrapper_forward ext dw q (kv_cache a) (scale self) (logits_soft_cap m),
                     [KernelCall (PagedDecode dw)]))))"

text \<open>
  Lines 241 to 297, once query, key and value have been reshaped: the two assertions on
  the token counts, the cache write, the dispatch and the final reshape.
\<close>

definition forward_reshaped ::
  "externals \<Rightarrow> FlashInferImpl \<Rightarrow> forward_args \<Rightarrow> nat \<Rightarrow> nat \<Rightarrow> tensor \<Rightarrow> tensor \<Rightarrow> tensor
   \<Rightarrow> (error + tensor) \<times> event list" where
  "forward_reshaped ext self a num_tokens hidden_size q k v =
     (let m = attn_metadata a in
      if num_prefill_tokens m > 0 \<and> num_decode_tokens m \<noteq> 0 then
        (Inl (AssertionError ''Chunked prefill is not supported with flashinfer yet.''), [])
      else if num_decode_tokens m > 0 \<and> num_prefill_tokens m \<noteq> 0 then
        (Inl (AssertionError ''Chunked prefill is not supported with flashinfer yet.''), [])
      else
        (case write_cache ext self a k v of
           (Inl e, tr1) \<Rightarrow> (Inl e, tr1)
         | (Inr u, tr1) \<Rightarrow>
             (case dispatch ext self a q k v of
                (Inl e, tr2) \<Rightarrow> (Inl e, tr1 @ tr2)
              | (Inr output, tr2) \<Rightarrow>
                  (case view2 output num_tokens hidden_size of
                     Inl e \<Rightarrow> (Inl e, tr1 @ tr2)
                   | Inr out \<Rightarrow> (Inr out, tr1 @ tr2 @ [Reshape out])))))"

text \<open>\<^verbatim>\<open>forward\<close>: the checks of lines 230 to 236, the reshapes of lines 237 to 240, then the rest.\<close>

definition forward ::
  "externals \<Rightarrow> FlashInferImpl \<Rightarrow> forward_args \<Rightarrow> (error + tensor) \<times> event list" where
  "forward ext self a =
     (if \<not> (k_scale a = 1 \<and> v_scale a = 1) then
        (Inl (AssertionError ''key/v_scale is not supported in FlashInfer.''), [])
      else if attn_type a \<noteq> DECODER then
        (Inl (NotImplementedError
           ''Encoder self-attention and encoder/decoder cross-attention are not implemented for FlashInferImpl''),
         [])
      else
        (case shape (query a) of
           [num_tokens, hidden_size] \<Rightarrow>
             (case view_infer (query a) (num_heads self) (head_size self) of
                Inl e \<Rightarrow> (Inl e, [])
              | Inr q \<Rightarrow>
             (case view_infer (key a) (impl_num_kv_heads self) (head_size self) of
                Inl e \<Rightarrow> (Inl e, [Reshape q])
              | Inr k \<Rightarrow>
             (case view_infer (value_arg a) (impl_num_kv_heads self) (head_size self) of
                Inl e \<Rightarrow> (Inl e, [Reshape q, Reshape k])
              | Inr v \<Rightarrow>
                  (case forward_reshaped ext self a num_tokens hidden_size q k v of
                     (r, tr) \<Rightarrow> (r, [Reshape q, Reshape k, Reshape v] @ tr)))))
         | _ \<Rightarrow> (Inl (ValueError ''cannot unpack query.shape''), [])))"


subsection \<open>The transmitted dictionary of the base class\<close>

text \<open>
  Modelled from the spec: \<^verbatim>\<open>AttentionMetadata.asdict_zerocopy\<close> lives in
  \<^verbatim>\<open>vllm/attention/backends/abstract.py\<close>. It yields the transmitted representation: one
  entry per dataclass field, by name, leaving out the names in \<open>skip_fields\<close>.
\<close>

datatype field_value =
    IntV int
  | BoolV bool
  | RealV real
  | StrV string
  | TensorV tensor
  | WrapperV wrapper_ref
  | DeviceV device
  | NoneV

definition optional :: "('a \<Rightarrow> field_value) \<Rightarrow> 'a option \<Rightarrow> field_value" where
  "optional f x = (case x of None \<Rightarrow> NoneV | Some v \<Rightarrow> f v)"

definition fields :: "FlashInferMetadata \<Rightarrow> (string \<times> field_value) list" where
  "fields self =
     [(''num_prefills'', IntV (num_prefills self)),
      (''num_prefill_tokens'', IntV (num_prefill_tokens self)),
      (''num_decode_tokens'', IntV (num_decode_tokens self)),
      (''slot_mapping'', TensorV (slot_mapping self)),
      (''max_prefill_seq_len'', IntV (max_prefill_seq_len self)),
      (''use_cuda_graph'', BoolV (use_cuda_graph self)),
      (''prefill_wrapper'', optional WrapperV (prefill_wrapper self)),
      (''decode_wrapper'', optional WrapperV (decode_wrapper self)),
      (''seq_start_loc'', optional TensorV (seq_start_loc self)),
      (''query_start_loc'', optional TensorV (query_start_loc self)),
      (''block_tables'', optional TensorV (block_tables self)),
      (''paged_kv_indptr'', optional TensorV (paged_kv_indptr self)),
      (''paged_kv_indices'', optional TensorV (paged_kv_indices self)),
      (''paged_kv_last_page_len'', optional TensorV (paged_kv_last_page_len self)),
      (''num_qo_heads'', optional IntV (num_qo_heads self)),
      (''num_kv_heads'', optional IntV (num_kv_heads self)),
      (''head_dim'', optional IntV (head_dim self)),
      (''page_size'', optional IntV (page_size self)),
      (''data_type'', optional StrV (data_type self)),
      (''device'', DeviceV (device self)),
      (''logits_soft_cap'', optional RealV (logits_soft_cap self))]"

definition base_asdict_zerocopy ::
  "FlashInferMetadata \<Rightarrow> string set \<Rightarrow> (string \<rightharpoonup> field_value)" where
  "base_asdict_zerocopy self skip = map_of (filter (\<lambda>(name, v). name \<notin> skip) (fields self))"

subsection \<open>Predicates used in the statements\<close>

text \<open>
  The token counts of a batch as the scheduler produces them: none is negative, and there
  are prefill tokens exactly when there are prefill requests.
\<close>

definition consistent_counts :: "FlashInferMetadata \<Rightarrow> bool" where
  "consistent_counts m =
     (0 \<le> num_prefill_tokens m \<and> 0 \<le> num_decode_tokens m \<and>
      (0 < num_prefills m) = (0 < num_prefill_tokens m))"

text \<open>
  \<open>moved_to d old new\<close>: the array was present and is now on device \<open>d\<close> with the shape and
  contents it had; an array that was on \<open>d\<close> already is the very same tensor.
\<close>

definition moved_to :: "device \<Rightarrow> tensor option \<Rightarrow> tensor option \<Rightarrow> bool" where
  "moved_to d old new =
     (case (old, new) of
        (Some t, Some t') \<Rightarrow>
          dev t' = d \<and> shape t' = shape t \<and> elems t' = elems t \<and> (if dev t = d then t' = t else True)
      | _ \<Rightarrow> False)"

text \<open>\<open>resident d t\<close>: the array, when present, lives on device \<open>d\<close>.\<close>

definition resident :: "device \<Rightarrow> tensor option \<Rightarrow> bool" where
  "resident d t = (case t of None \<Rightarrow> True | Some x \<Rightarrow> dev x = d)"

text \<open>A result that is a value, not a raised exception.\<close>

definition returns :: "error + 'a \<Rightarrow> bool" where
  "returns r = (case r of Inl e \<Rightarrow> False | Inr x \<Rightarrow> True)"

text \<open>The checks of \<^verbatim>\<open>forward\<close> that come before the assertions on the token counts.\<close>

definition passes_argument_checks :: "FlashInferImpl \<Rightarrow> forward_args \<Rightarrow> bool" where
  "passes_argument_checks self a =
     (k_scale a = 1 \<and> v_scale a = 1 \<and> attn_type a = DECODER \<and> length (shape (query a)) = 2 \<and>
      returns (view_infer (query a) (num_heads self) (head_size self)) \<and>
      returns (view_infer (key a) (impl_num_kv_heads self) (head_size self)) \<and>
      returns (view_infer (value_arg a) (impl_num_kv_heads self) (head_size self)))"

subsection \<open>Concrete inputs\<close>

definition host_tensor :: "nat \<Rightarrow> nat list \<Rightarrow> int list \<Rightarrow> tensor" where
  "host_tensor i sh xs = \<lparr>tid = i, dev = CPU, shape = sh, elems = xs\<rparr>"

definition gpu_tensor :: "nat \<Rightarrow> nat list \<Rightarrow> int list \<Rightarrow> tensor" where
  "gpu_tensor i sh xs = \<lparr>tid = i, dev = CUDA 0, shape = sh, elems = xs\<rparr>"

text \<open>
  Two decode requests with page size 16: request A owns pages 2 and 5 with 3 slots of the
  last one filled, request B owns page 7 with 9 slots filled.
\<close>

definition decode_batch :: FlashInferMetadata where
  "decode_batch =
     \<lparr>num_prefills = 0, num_prefill_tokens = 0, num_decode_tokens = 2,
      slot_mapping = gpu_tensor 1 [2] [83, 121],
      max_prefill_seq_len = 0, use_cuda_graph = False,
      prefill_wrapper = Some 0, decode_wrapper = Some 1,
      seq_start_loc = None, query_start_loc = None, block_tables = None,
      paged_kv_indptr = Some (host_tensor 11 [3] [0, 2, 3]),
      paged_kv_indices = Some (host_tensor 10 [3] [2, 5, 7]),
      paged_kv_last_page_len = Some (host_tensor 12 [2] [3, 9]),
      num_qo_heads = Some 8, num_kv_heads = Some 8, head_dim = Some 64, page_size = Some 16,
      data_type = Some ''float16'', device = CUDA 0, logits_soft_cap = None\<rparr>"

text \<open>One prefill request of four tokens that owns page 3.\<close>

definition prefill_batch :: FlashInferMetadata where
  "prefill_batch =
     \<lparr>num_prefills = 1, num_prefill_tokens = 4, num_decode_tokens = 0,
      slot_mapping = gpu_tensor 2 [4] [48, 49, 50, 51],
      max_prefill_seq_len = 4, use_cuda_graph = True,
      prefill_wrapper = Some 0, decode_wrapper = Some 1,
      seq_start_loc = Some (gpu_tensor 3 [2] [0, 4]),
      query_start_loc = Some (gpu_tensor 4 [2] [0, 4]),
      block_tables = None,
      paged_kv_indptr = Some (host_tensor 21 [2] [0, 1]),
      paged_kv_indices = Some (host_tensor 20 [1] [3]),
      paged_kv_last_page_len = Some (host_tensor 22 [1] [4]),
      num_qo_heads = Some 8, num_kv_heads = Some 8, head_dim = Some 64, page_size = Some 16,
      data_type = Some ''float16'', device = CUDA 0, logits_soft_cap = None\<rparr>"

text \<open>The same prefill request during a profiling pass: no page arrays, no capture.\<close>

definition profiling_batch :: FlashInferMetadata where
  "profiling_batch =
     prefill_batch\<lparr>use_cuda_graph := False, paged_kv_indptr := None, paged_kv_indices := None,
                   paged_kv_last_page_len := None\<rparr>"

definition idle_world :: world where
  "idle_world = \<lparr>sessions = (\<lambda>r. \<lparr>plans = []\<rparr>), next_tid = 100\<rparr>"

definition impl8 :: FlashInferImpl where
  "impl8 =
     \<lparr>num_heads = 8, head_size = 64, scale = 1 / 8, impl_num_kv_heads = 8, alibi_slopes = None,
      sliding_window = (-1, -1), kv_cache_dtype = ''auto'', num_queries_per_kv = 1\<rparr>"

text \<open>External operations that return a tensor of the query's shape and never raise.\<close>

definition quiet_externals :: externals where
  "quiet_externals =
     \<lparr>reshape_and_cache_flash = (\<lambda>k v ks vs slots dt. None),
      flash_attn_varlen_func = (\<lambda>args. Inr (arg_q args)),
      prefill_wrapper_forward = (\<lambda>r q c cap cz. Inr q),
      decode_wrapper_forward = (\<lambda>r q c sc cap. Inr q)\<rparr>"

definition cache4 :: tensor where
  "cache4 = gpu_tensor 30 [4, 2, 16, 8, 64] []"

definition decode_call :: forward_args where
  "decode_call =
     \<lparr>query = gpu_tensor 40 [2, 512] [], key = gpu_tensor 41 [2, 512] [],
      value_arg = gpu_tensor 42 [2, 512] [], kv_cache = Some cache4,
      attn_metadata = decode_batch, k_scale = 1, v_scale = 1, attn_type = DECODER\<rparr>"

definition prefill_call :: forward_args where
  "prefill_call =
     \<lparr>query = gpu_tensor 50 [4, 512] [], key = gpu_tensor 51 [4, 512] [],
      value_arg = gpu_tensor 52 [4, 512] [], kv_cache = Some cache4,
      attn_metadata = prefill_batch, k_scale = 1, v_scale = 1, attn_type = DECODER\<rparr>"



text \<open>The decode batch in graph-capture mode, its page arrays resident on the device.\<close>

definition captured_batch :: FlashInferMetadata where
  "captured_batch =
     decode_batch\<lparr>use_cuda_graph := True,
                  paged_kv_indptr := Some (gpu_tensor 11 [3] [0, 2, 3]),
                  paged_kv_indices := Some (gpu_tensor 10 [3] [2, 5, 7]),
                  paged_kv_last_page_len := Some (gpu_tensor 12 [2] [3, 9])\<rparr>"

text \<open>
  A float32 conversion for slopes that are float32 values already, such as the powers of
  two used below: it returns them as they are.
\<close>

definition float32_exact :: "real list \<Rightarrow> real list" where
  "float32_exact xs = xs"

definition mixed_call :: forward_args where
  "mixed_call = prefill_call\<lparr>attn_metadata := prefill_batch\<lparr>num_decode_tokens := 1\<rparr>\<rparr>"

definition empty_call :: forward_args where
  "empty_call = decode_call\<lparr>attn_metadata := decode_batch\<lparr>num_decode_tokens := 0\<rparr>\<rparr>"

definition planned_world :: world where
  "planned_world = replan 1 (decode_plan decode_batch) idle_world"

section \<open>Properties\<close>

subsection \<open>Unfolding sets\<close>

lemmas concrete_defs =
  decode_call_def prefill_call_def decode_batch_def prefill_batch_def
  impl8_def quiet_externals_def cache4_def gpu_tensor_def host_tensor_def idle_world_def

lemmas forward_defs =
  forward_def forward_reshaped_def write_cache_def dispatch_def prefill_metadata_def
  decode_metadata_def view_infer_def view2_def select_dim1_def flatten_def contiguous_def numel_def


lemmas begin_forward_defs =
  begin_forward_def page_arrays_to_device_def to_device_def replan_def update_session_def
  begin_forward_session_def end_forward_session_def prefill_plan_def decode_plan_def

subsection \<open>The steps of forward\<close>

lemma kernel_paths_append: "kernel_paths (xs @ ys) = kernel_paths xs @ kernel_paths ys"
  by (induction xs rule: kernel_paths.induct) simp_all

lemma write_cache_no_kernel: "kernel_paths (snd (write_cache ext self a k v)) = []"
  by (simp add: write_cache_def split: option.splits sum.splits)

lemma forward_passes:
  assumes "passes_argument_checks self a"
  shows "\<exists>n h q k v. forward ext self a =
       (fst (forward_reshaped ext self a n h q k v),
        [Reshape q, Reshape k, Reshape v] @ snd (forward_reshaped ext self a n h q k v))"
proof -
  from assms obtain n h where sh: "shape (query a) = [n, h]"
    by (auto simp: passes_argument_checks_def length_Suc_conv numeral_2_eq_2)
  from assms obtain q k v where
    q: "view_infer (query a) (num_heads self) (head_size self) = Inr q" and
    k: "view_infer (key a) (impl_num_kv_heads self) (head_size self) = Inr k" and
    v: "view_infer (value_arg a) (impl_num_kv_heads self) (head_size self) = Inr v"
    by (auto simp: passes_argument_checks_def returns_def split: sum.splits)
  from assms have g: "k_scale a = 1" "v_scale a = 1" "attn_type a = DECODER"
    by (simp_all add: passes_argument_checks_def)
  have "forward ext self a =
       (fst (forward_reshaped ext self a n h q k v),
        [Reshape q, Reshape k, Reshape v] @ snd (forward_reshaped ext self a n h q k v))"
    by (simp add: forward_def g sh q k v split: prod.splits)
  then show ?thesis by blast
qed

lemma forward_fails_checks:
  assumes "\<not> passes_argument_checks self a"
  shows "\<exists>e tr. forward ext self a = (Inl e, tr) \<and> kernel_paths tr = [] \<and> cache_writes tr = []"
  using assms
  by (auto simp: forward_def passes_argument_checks_def returns_def
      split: list.splits sum.splits)

lemma forward_reshaped_mixed:
  assumes "0 < num_prefill_tokens (attn_metadata a)" "0 < num_decode_tokens (attn_metadata a)"
  shows "forward_reshaped ext self a n h q k v =
     (Inl (AssertionError ''Chunked prefill is not supported with flashinfer yet.''), [])"
  using assms by (simp add: forward_reshaped_def)

lemma dispatch_empty:
  assumes "num_decode_tokens (attn_metadata a) = 0" "num_prefills (attn_metadata a) \<le> 0"
  shows "dispatch ext self a q k v = (Inl (AssertionError ''''), [])"
  using assms by (simp add: dispatch_def prefill_metadata_def)

lemma dispatch_returns:
  assumes "dispatch ext self a q k v = (Inr res, tr)"
  obtains
    (dense) "num_decode_tokens (attn_metadata a) = 0" "0 < num_prefills (attn_metadata a)"
      "kv_cache a = None" "tr = [KernelCall DenseFallback]"
  | (prefill) pw where "num_decode_tokens (attn_metadata a) = 0"
      "0 < num_prefills (attn_metadata a)" "kv_cache a \<noteq> None"
      "prefill_wrapper (attn_metadata a) = Some pw" "tr = [KernelCall (PagedPrefill pw)]"
  | (decode) dw where "num_decode_tokens (attn_metadata a) \<noteq> 0"
      "num_prefills (attn_metadata a) \<le> 0" "decode_wrapper (attn_metadata a) = Some dw"
      "tr = [KernelCall (PagedDecode dw)]"
  using assms
  by (auto simp: dispatch_def prefill_metadata_def decode_metadata_def Let_def
      split: if_splits option.splits sum.splits)

lemma dispatch_at_most_one: "length (kernel_paths (snd (dispatch ext self a q k v))) \<le> 1"
  by (auto simp: dispatch_def prefill_metadata_def decode_metadata_def Let_def
      split: if_splits option.splits sum.splits)

lemma forward_reshaped_returns:
  assumes "forward_reshaped ext self a n h q k v = (Inr out, tr)"
  obtains tr1 tr2 res where
    "\<not> (0 < num_prefill_tokens (attn_metadata a) \<and> num_decode_tokens (attn_metadata a) \<noteq> 0)"
    "\<not> (0 < num_decode_tokens (attn_metadata a) \<and> num_prefill_tokens (attn_metadata a) \<noteq> 0)"
    "write_cache ext self a k v = (Inr (), tr1)"
    "dispatch ext self a q k v = (Inr res, tr2)"
    "tr = tr1 @ tr2 @ [Reshape out]"
  using assms
  by (auto simp: forward_reshaped_def Let_def split: if_splits prod.splits sum.splits)

lemma forward_returns:
  assumes "forward ext self a = (Inr out, tr)"
  obtains q k v res tr2 where
    "\<not> (0 < num_prefill_tokens (attn_metadata a) \<and> num_decode_tokens (attn_metadata a) \<noteq> 0)"
    "\<not> (0 < num_decode_tokens (attn_metadata a) \<and> num_prefill_tokens (attn_metadata a) \<noteq> 0)"
    "dispatch ext self a q k v = (Inr res, tr2)"
    "kernel_paths tr = kernel_paths tr2"
proof -
  have pass: "passes_argument_checks self a"
  proof (rule ccontr)
    assume "\<not> passes_argument_checks self a"
    from forward_fails_checks [OF this, of ext] obtain e tr0
      where "forward ext self a = (Inl e, tr0)" by blast
    with assms show False by simp
  qed
  from forward_passes [OF pass] obtain n h q k v where
    fw: "forward ext self a =
       (fst (forward_reshaped ext self a n h q k v),
        [Reshape q, Reshape k, Reshape v] @ snd (forward_reshaped ext self a n h q k v))"
    by blast
  define tr' where "tr' = snd (forward_reshaped ext self a n h q k v)"
  have "fst (forward_reshaped ext self a n h q k v) = Inr out"
    and tr: "tr = [Reshape q, Reshape k, Reshape v] @ tr'"
    using assms fw by (simp_all add: tr'_def)
  then have fr: "forward_reshaped ext self a n h q k v = (Inr out, tr')"
    by (simp add: tr'_def prod_eq_iff)
  from forward_reshaped_returns [OF fr] obtain tr1 tr2 res where
    nm1: "\<not> (0 < num_prefill_tokens (attn_metadata a) \<and> num_decode_tokens (attn_metadata a) \<noteq> 0)" and
    nm2: "\<not> (0 < num_decode_tokens (attn_metadata a) \<and> num_prefill_tokens (attn_metadata a) \<noteq> 0)" and
    wc: "write_cache ext self a k v = (Inr (), tr1)" and
    di: "dispatch ext self a q k v = (Inr res, tr2)" and
    tr': "tr' = tr1 @ tr2 @ [Reshape out]"
    by blast
  have "kernel_paths tr1 = []" using write_cache_no_kernel [of ext self a k v] wc by simp
  then have kp: "kernel_paths tr = kernel_paths tr2"
    by (simp add: tr tr' kernel_paths_append)
  from nm1 nm2 di kp show ?thesis by (rule that)
qed

lemma forward_returns_nonempty:
  assumes "forward ext self a = (Inr out, tr)"
  shows "(num_decode_tokens (attn_metadata a) = 0 \<and> 0 < num_prefills (attn_metadata a)) \<or>
         (num_decode_tokens (attn_metadata a) \<noteq> 0 \<and> num_prefills (attn_metadata a) \<le> 0)"
proof -
  from assms obtain q k v res tr2 where "dispatch ext self a q k v = (Inr res, tr2)"
    by (rule forward_returns)
  then show ?thesis by (cases rule: dispatch_returns) simp_all
qed


text \<open>Whether it returns or raises, a call invokes at most one kernel.\<close>

lemma forward_reshaped_at_most_one_path:
  "length (kernel_paths (snd (forward_reshaped ext self a n h q k v))) \<le> 1"
proof -
  obtain r1 tr1 where wc: "write_cache ext self a k v = (r1, tr1)"
    by (cases "write_cache ext self a k v")
  obtain r2 tr2 where di: "dispatch ext self a q k v = (r2, tr2)"
    by (cases "dispatch ext self a q k v")
  have k1: "kernel_paths tr1 = []"
    using write_cache_no_kernel [of ext self a k v] wc by simp
  have k2: "length (kernel_paths tr2) \<le> 1"
    using dispatch_at_most_one [of ext self a q k v] di by simp
  show ?thesis
    using k1 k2
    by (simp add: forward_reshaped_def Let_def wc di kernel_paths_append
        split: sum.splits)
qed

lemma forward_at_most_one_path: "length (kernel_paths (snd (forward ext self a))) \<le> 1"
proof (cases "passes_argument_checks self a")
  case False
  from forward_fails_checks [OF False, of ext] show ?thesis by auto
next
  case True
  from forward_passes [OF True] obtain n h q k v where
    "forward ext self a =
       (fst (forward_reshaped ext self a n h q k v),
        [Reshape q, Reshape k, Reshape v] @ snd (forward_reshaped ext self a n h q k v))"
    by blast
  then show ?thesis
    using forward_reshaped_at_most_one_path [of ext self a n h q k v]
    by (simp add: kernel_paths_append)
qed

subsection \<open>The steps of begin-forward\<close>

lemma to_device_idem:
  assumes "to_device t d w = (t', w')"
  shows "to_device t' d v = (t', v)"
  using assms by (auto simp: to_device_def split: if_splits)

lemma to_device_moved:
  assumes "to_device t d w = (t', w')"
  shows "moved_to d (Some t) (Some t')" "sessions w' = sessions w" "dev t = d \<Longrightarrow> w' = w"
  using assms by (auto simp: to_device_def moved_to_def split: if_splits)

lemma page_arrays_to_device_absent:
  assumes "paged_kv_indices m = None \<or> paged_kv_indptr m = None \<or> paged_kv_last_page_len m = None"
  shows "page_arrays_to_device m w = (Inl (AssertionError ''''), m, w)"
  using assms by (auto simp: page_arrays_to_device_def split: option.splits)

lemma page_arrays_to_device_present:
  assumes "paged_kv_indices m = Some i" "paged_kv_indptr m = Some p" "paged_kv_last_page_len m = Some l"
  obtains i' p' l' w' where
    "page_arrays_to_device m w =
       (Inr (), m\<lparr>paged_kv_indices := Some i', paged_kv_indptr := Some p',
                   paged_kv_last_page_len := Some l'\<rparr>, w')"
    "moved_to (device m) (Some i) (Some i')"
    "moved_to (device m) (Some p) (Some p')"
    "moved_to (device m) (Some l) (Some l')"
    "sessions w' = sessions w"
proof -
  obtain i' w1 where 1: "to_device i (device m) w = (i', w1)" by (cases "to_device i (device m) w")
  obtain p' w2 where 2: "to_device p (device m) w1 = (p', w2)" by (cases "to_device p (device m) w1")
  obtain l' w3 where 3: "to_device l (device m) w2 = (l', w3)" by (cases "to_device l (device m) w2")
  have "page_arrays_to_device m w =
       (Inr (), m\<lparr>paged_kv_indices := Some i', paged_kv_indptr := Some p',
                   paged_kv_last_page_len := Some l'\<rparr>, w3)"
    by (simp add: page_arrays_to_device_def assms 1 2 3)
  moreover have "sessions w3 = sessions w"
    using to_device_moved(2) [OF 1] to_device_moved(2) [OF 2] to_device_moved(2) [OF 3] by simp
  ultimately show ?thesis
    using that to_device_moved(1) [OF 1] to_device_moved(1) [OF 2] to_device_moved(1) [OF 3]
    by blast
qed

lemma page_arrays_to_device_frame:
  assumes "page_arrays_to_device m w = (r, m', w')"
  shows "\<exists>i p l. m' = m\<lparr>paged_kv_indices := i, paged_kv_indptr := p, paged_kv_last_page_len := l\<rparr>"
proof (cases "paged_kv_indices m = None \<or> paged_kv_indptr m = None \<or> paged_kv_last_page_len m = None")
  case True
  then have "m' = m" using assms by (simp add: page_arrays_to_device_absent)
  then have "m' = m\<lparr>paged_kv_indices := paged_kv_indices m, paged_kv_indptr := paged_kv_indptr m,
                     paged_kv_last_page_len := paged_kv_last_page_len m\<rparr>" by simp
  then show ?thesis by blast
next
  case False
  then obtain i p l where "paged_kv_indices m = Some i" "paged_kv_indptr m = Some p"
      "paged_kv_last_page_len m = Some l" by auto
  from page_arrays_to_device_present [OF this, of w] assms show ?thesis
    by (metis prod.inject)
qed

lemma page_arrays_to_device_idem:
  assumes "page_arrays_to_device m w = (r, m', w')"
  shows "page_arrays_to_device m' v = (r, m', v)"
proof (cases "paged_kv_indices m = None \<or> paged_kv_indptr m = None \<or> paged_kv_last_page_len m = None")
  case True
  then have "r = Inl (AssertionError '''')" "m' = m"
    using assms by (simp_all add: page_arrays_to_device_absent)
  then show ?thesis using True by (simp add: page_arrays_to_device_absent)
next
  case False
  then obtain i p l where s: "paged_kv_indices m = Some i" "paged_kv_indptr m = Some p"
      "paged_kv_last_page_len m = Some l" by auto
  obtain i' w1 where 1: "to_device i (device m) w = (i', w1)" by (cases "to_device i (device m) w")
  obtain p' w2 where 2: "to_device p (device m) w1 = (p', w2)" by (cases "to_device p (device m) w1")
  obtain l' w3 where 3: "to_device l (device m) w2 = (l', w3)" by (cases "to_device l (device m) w2")
  have "page_arrays_to_device m w =
       (Inr (), m\<lparr>paged_kv_indices := Some i', paged_kv_indptr := Some p',
                   paged_kv_last_page_len := Some l'\<rparr>, w3)"
    by (simp add: page_arrays_to_device_def s 1 2 3)
  with assms have r: "r = Inr ()" and m': "m' = m\<lparr>paged_kv_indices := Some i', paged_kv_indptr := Some p',
                   paged_kv_last_page_len := Some l'\<rparr>" by simp_all
  show ?thesis
    by (simp add: page_arrays_to_device_def r m' to_device_idem [OF 1] to_device_idem [OF 2]
        to_device_idem [OF 3])
qed

lemma replan_sessions:
  "sessions (replan r p w) = (sessions w)(r := (sessions w r)\<lparr>plans := [p]\<rparr>)"
  by (simp add: replan_def update_session_def begin_forward_session_def end_forward_session_def)

lemma replan_idem: "replan r p (replan r p w) = replan r p w"
  by (simp add: replan_def update_session_def begin_forward_session_def end_forward_session_def)

lemma replan_next_tid: "next_tid (replan r p w) = next_tid w"
  by (simp add: replan_def update_session_def)

lemma begin_forward_idem:
  assumes "begin_forward m w = (r, m', w')"
  shows "begin_forward m' w' = (r, m', w')"
proof (cases "0 < num_prefill_tokens m")
  case True
  note pre = True
  show ?thesis
  proof (cases "paged_kv_indices m")
    case None
    with pre assms show ?thesis by (auto simp: begin_forward_def)
  next
    case (Some i)
    show ?thesis
    proof (cases "prefill_wrapper m")
      case None
      with pre Some assms show ?thesis by (auto simp: begin_forward_def)
    next
      case (Some pw)
      note pw = Some
      obtain r1 m1 w1 where pa: "page_arrays_to_device m w = (r1, m1, w1)"
        by (cases "page_arrays_to_device m w")
      from page_arrays_to_device_frame [OF pa] have fr:
        "num_prefill_tokens m1 = num_prefill_tokens m" "prefill_wrapper m1 = prefill_wrapper m"
        by auto
      show ?thesis
      proof (cases r1)
        case (Inl e)
        with pa pre \<open>paged_kv_indices m = Some i\<close> pw assms
        have "r = Inl e" "m' = m1" "w' = w1" by (auto simp: begin_forward_def)
        moreover from Inl pa have "m1 = m"
          by (auto simp: page_arrays_to_device_def Let_def split: option.splits prod.splits)
        moreover have "page_arrays_to_device m1 w1 = (r1, m1, w1)"
          by (rule page_arrays_to_device_idem [OF pa])
        ultimately show ?thesis
          using pre pw Inl \<open>paged_kv_indices m = Some i\<close> by (simp add: begin_forward_def)
      next
        case (Inr u)
        with pa pre \<open>paged_kv_indices m = Some i\<close> pw assms
        have res: "r = Inr ()" "m' = m1" "w' = replan pw (prefill_plan m1) w1"
          by (auto simp: begin_forward_def)
        from Inr pa have "paged_kv_indices m1 \<noteq> None"
          by (auto simp: page_arrays_to_device_def Let_def split: option.splits prod.splits)
        moreover have "page_arrays_to_device m1 w' = (r1, m1, w')"
          by (rule page_arrays_to_device_idem [OF pa])
        ultimately show ?thesis
          using pre fr pw Inr res by (simp add: begin_forward_def replan_idem)
      qed
    qed
  qed
next
  case False
  note dec = False
  obtain r1 m1 w1 where pa:
    "(if use_cuda_graph m then (Inr (), m, w) else page_arrays_to_device m w) = (r1, m1, w1)"
    by (cases "if use_cuda_graph m then (Inr (), m, w) else page_arrays_to_device m w")
  have fr: "num_prefill_tokens m1 = num_prefill_tokens m" "decode_wrapper m1 = decode_wrapper m"
    "use_cuda_graph m1 = use_cuda_graph m"
    using pa page_arrays_to_device_frame [of m w r1 m1 w1] by (auto split: if_splits)
  have again: "(if use_cuda_graph m1 then (Inr (), m1, v) else page_arrays_to_device m1 v) = (r1, m1, v)" for v
    using pa fr page_arrays_to_device_idem [of m w r1 m1 w1 v] by (auto split: if_splits)
  show ?thesis
  proof (cases r1)
    case (Inl e)
    with pa dec assms have res: "r = Inl e" "m' = m1" "w' = w1" by (auto simp: begin_forward_def)
    have "begin_forward m1 v = (Inl e, m1, v)" for v
      using dec fr again [of v] Inl by (simp add: begin_forward_def)
    then show ?thesis by (simp add: res)
  next
    case (Inr u)
    have step: "begin_forward m1 v =
        (case decode_wrapper m1 of
           None \<Rightarrow> (Inl (AssertionError ''''), m1, v)
         | Some dw \<Rightarrow> (Inr (), m1, replan dw (decode_plan m1) v))" for v
      using dec fr again [of v] Inr by (simp add: begin_forward_def)
    have first: "begin_forward m w =
        (case decode_wrapper m1 of
           None \<Rightarrow> (Inl (AssertionError ''''), m1, w1)
         | Some dw \<Rightarrow> (Inr (), m1, replan dw (decode_plan m1) w1))"
      using dec pa Inr by (simp add: begin_forward_def)
    show ?thesis
    proof (cases "decode_wrapper m1")
      case None
      with first assms have "r = Inl (AssertionError '''')" "m' = m1" "w' = w1" by auto
      then show ?thesis by (simp add: step None)
    next
      case (Some dw)
      with first assms have "r = Inr ()" "m' = m1" "w' = replan dw (decode_plan m1) w1" by auto
      then show ?thesis by (simp add: step Some replan_idem)
    qed
  qed
qed

lemma page_arrays_to_device_result:
  assumes "page_arrays_to_device m w = (r, m', w')"
  shows "sessions w' = sessions w"
    and "r = Inl e \<Longrightarrow> m' = m \<and> w' = w"
    and "r = Inr u \<Longrightarrow> paged_kv_indices m \<noteq> None \<and> paged_kv_indptr m \<noteq> None \<and>
           paged_kv_last_page_len m \<noteq> None"
proof -
  show "sessions w' = sessions w"
  proof (cases "paged_kv_indices m = None \<or> paged_kv_indptr m = None \<or> paged_kv_last_page_len m = None")
    case True
    then show ?thesis using assms by (simp add: page_arrays_to_device_absent)
  next
    case False
    then obtain i p l where "paged_kv_indices m = Some i" "paged_kv_indptr m = Some p"
      "paged_kv_last_page_len m = Some l" by auto
    from page_arrays_to_device_present [OF this, of w] assms show ?thesis
      by (metis prod.inject)
  qed
  show "r = Inl e \<Longrightarrow> m' = m \<and> w' = w"
    using assms
    by (auto simp: page_arrays_to_device_def Let_def split: option.splits prod.splits)
  show "r = Inr u \<Longrightarrow> paged_kv_indices m \<noteq> None \<and> paged_kv_indptr m \<noteq> None \<and>
           paged_kv_last_page_len m \<noteq> None"
    using assms
    by (auto simp: page_arrays_to_device_def Let_def split: option.splits prod.splits)
qed

lemma page_arrays_to_device_moved:
  assumes "page_arrays_to_device m w = (r, m', w')"
    and "paged_kv_indices m \<noteq> None" "paged_kv_indptr m \<noteq> None" "paged_kv_last_page_len m \<noteq> None"
  shows "r = Inr () \<and>
         moved_to (device m) (paged_kv_indices m) (paged_kv_indices m') \<and>
         moved_to (device m) (paged_kv_indptr m) (paged_kv_indptr m') \<and>
         moved_to (device m) (paged_kv_last_page_len m) (paged_kv_last_page_len m')"
proof -
  from assms(2-4) obtain i p l where s: "paged_kv_indices m = Some i" "paged_kv_indptr m = Some p"
      "paged_kv_last_page_len m = Some l" by auto
  from page_arrays_to_device_present [OF s, of w] obtain i' p' l' v where
    "page_arrays_to_device m w =
       (Inr (), m\<lparr>paged_kv_indices := Some i', paged_kv_indptr := Some p',
                   paged_kv_last_page_len := Some l'\<rparr>, v)"
    "moved_to (device m) (Some i) (Some i')"
    "moved_to (device m) (Some p) (Some p')"
    "moved_to (device m) (Some l) (Some l')"
    by metis
  with assms(1) s show ?thesis by auto
qed

lemma page_arrays_to_device_resident:
  assumes "resident (device m) (paged_kv_indices m)" "resident (device m) (paged_kv_indptr m)"
    "resident (device m) (paged_kv_last_page_len m)"
  shows "\<exists>r. page_arrays_to_device m w = (r, m, w)"
proof (cases "paged_kv_indices m = None \<or> paged_kv_indptr m = None \<or> paged_kv_last_page_len m = None")
  case True
  then show ?thesis by (simp add: page_arrays_to_device_absent)
next
  case False
  then obtain i p l where s: "paged_kv_indices m = Some i" "paged_kv_indptr m = Some p"
      "paged_kv_last_page_len m = Some l" by auto
  with assms have d: "dev i = device m" "dev p = device m" "dev l = device m"
    by (simp_all add: resident_def)
  have "m\<lparr>paged_kv_indices := Some i, paged_kv_indptr := Some p,
           paged_kv_last_page_len := Some l\<rparr> = m"
    using s by (cases m) simp
  then show ?thesis
    by (simp add: page_arrays_to_device_def s d to_device_def)
qed

lemma begin_forward_cases:
  assumes "begin_forward m w = (r, m', w')"
  obtains
    (early) "0 < num_prefill_tokens m" "paged_kv_indices m = None" "r = Inr ()" "m' = m" "w' = w"
  | (failed) e where "r = Inl e" "sessions w' = sessions w"
  | (prefill) pw where "0 < num_prefill_tokens m" "paged_kv_indices m \<noteq> None"
      "prefill_wrapper m = Some pw" "r = Inr ()"
      "sessions w' = (sessions w)(pw := (sessions w pw)\<lparr>plans := [prefill_plan m']\<rparr>)"
  | (decode) dw where "\<not> 0 < num_prefill_tokens m" "decode_wrapper m = Some dw" "r = Inr ()"
      "sessions w' = (sessions w)(dw := (sessions w dw)\<lparr>plans := [decode_plan m']\<rparr>)"
proof (cases "0 < num_prefill_tokens m")
  case True
  note pre = True
  show ?thesis
  proof (cases "paged_kv_indices m")
    case None
    with pre assms have "r = Inr ()" "m' = m" "w' = w" by (auto simp: begin_forward_def)
    with pre None show ?thesis by (rule early)
  next
    case (Some i)
    note idx = Some
    show ?thesis
    proof (cases "prefill_wrapper m")
      case None
      with pre idx assms have "r = Inl (AssertionError '''')" "sessions w' = sessions w"
        by (auto simp: begin_forward_def)
      then show ?thesis by (rule failed)
    next
      case (Some pw)
      obtain r1 m1 w1 where pa: "page_arrays_to_device m w = (r1, m1, w1)"
        by (cases "page_arrays_to_device m w")
      note s1 = page_arrays_to_device_result(1) [OF pa]
      show ?thesis
      proof (cases r1)
        case (Inl e)
        with pa pre idx Some assms have "r = Inl e" "w' = w1" by (auto simp: begin_forward_def)
        with s1 show ?thesis using failed by simp
      next
        case (Inr u)
        with pa pre idx Some assms have "r = Inr ()" "m' = m1" "w' = replan pw (prefill_plan m1) w1"
          by (auto simp: begin_forward_def)
        with s1 pre idx Some show ?thesis using prefill [of pw] by (simp add: replan_sessions)
      qed
    qed
  qed
next
  case False
  note dec = False
  obtain r1 m1 w1 where pa:
    "(if use_cuda_graph m then (Inr (), m, w) else page_arrays_to_device m w) = (r1, m1, w1)"
    by (cases "if use_cuda_graph m then (Inr (), m, w) else page_arrays_to_device m w")
  have s1: "sessions w1 = sessions w"
    using pa page_arrays_to_device_result(1) [of m w r1 m1 w1] by (auto split: if_splits)
  have dwm: "decode_wrapper m1 = decode_wrapper m"
    using pa page_arrays_to_device_frame [of m w r1 m1 w1] by (auto split: if_splits)
  have first: "begin_forward m w =
      (case r1 of Inl e \<Rightarrow> (Inl e, m1, w1)
       | Inr u \<Rightarrow> (case decode_wrapper m1 of
           None \<Rightarrow> (Inl (AssertionError ''''), m1, w1)
         | Some dw \<Rightarrow> (Inr (), m1, replan dw (decode_plan m1) w1)))"
    using dec pa by (simp add: begin_forward_def split: sum.splits)
  show ?thesis
  proof (cases r1)
    case (Inl e)
    with first assms have "r = Inl e" "w' = w1" by auto
    with s1 show ?thesis using failed by simp
  next
    case (Inr u)
    show ?thesis
    proof (cases "decode_wrapper m1")
      case None
      with Inr first assms have "r = Inl (AssertionError '''')" "w' = w1" by auto
      with s1 show ?thesis using failed by simp
    next
      case (Some dw)
      with Inr first assms have "r = Inr ()" "m' = m1" "w' = replan dw (decode_plan m1) w1" by auto
      with s1 dec dwm Some show ?thesis using decode [of dw] by (simp add: replan_sessions)
    qed
  qed
qed

subsection \<open>The transmitted dictionary\<close>

lemma asdict_skip_set:
  "asdict_zerocopy base self sf =
     base self (insert ''decode_wrapper'' (insert ''prefill_wrapper''
       (case sf of None \<Rightarrow> {} | Some s \<Rightarrow> s)))"
  by (simp add: asdict_zerocopy_def)

lemma base_asdict_skips: "k \<in> s \<Longrightarrow> base_asdict_zerocopy m s k = None"
  by (auto simp: base_asdict_zerocopy_def map_of_eq_None_iff)

subsection \<open>Claims\<close>



text \<open>
  C2. For a batch with consistent counts: when both token counts are nonzero the call is
  rejected before any cache write or kernel invocation, with the chunked-prefill assertion
  whenever it passes the argument checks that come first, and the decode classification
  fails its assertion; a call that returns has exactly one of the two counts nonzero.
\<close>

theorem forward_rejects_mixed_batch:
  assumes "consistent_counts (attn_metadata a)"
  shows "(num_prefill_tokens (attn_metadata a) \<noteq> 0 \<and> num_decode_tokens (attn_metadata a) \<noteq> 0 \<longrightarrow>
            (\<exists>e tr. forward ext self a = (Inl e, tr) \<and> cache_writes tr = [] \<and> kernel_paths tr = []) \<and>
            (passes_argument_checks self a \<longrightarrow>
               fst (forward ext self a)
                 = Inl (AssertionError ''Chunked prefill is not supported with flashinfer yet.'')) \<and>
            decode_metadata (attn_metadata a) = Inl (AssertionError '''')) \<and>
         (\<forall>out tr. forward ext self a = (Inr out, tr) \<longrightarrow>
            (num_prefill_tokens (attn_metadata a) = 0) \<noteq> (num_decode_tokens (attn_metadata a) = 0))"
proof -
  have mixed: "\<exists>e tr. forward ext self a = (Inl e, tr) \<and> cache_writes tr = [] \<and> kernel_paths tr = []"
    and chunked: "passes_argument_checks self a \<Longrightarrow> fst (forward ext self a)
                 = Inl (AssertionError ''Chunked prefill is not supported with flashinfer yet.'')"
    and dm: "decode_metadata (attn_metadata a) = Inl (AssertionError '''')"
    if nz: "num_prefill_tokens (attn_metadata a) \<noteq> 0" "num_decode_tokens (attn_metadata a) \<noteq> 0"
  proof -
    from nz assms have pos: "0 < num_prefill_tokens (attn_metadata a)"
      "0 < num_decode_tokens (attn_metadata a)" "0 < num_prefills (attn_metadata a)"
      by (auto simp: consistent_counts_def)
    show "decode_metadata (attn_metadata a) = Inl (AssertionError '''')"
      using pos by (simp add: decode_metadata_def)
    have *: "forward ext self a =
        (Inl (AssertionError ''Chunked prefill is not supported with flashinfer yet.''),
         [Reshape q, Reshape k, Reshape v])"
      if "forward ext self a =
       (fst (forward_reshaped ext self a n h q k v),
        [Reshape q, Reshape k, Reshape v] @ snd (forward_reshaped ext self a n h q k v))"
      for n h q k v
      using that by (simp add: forward_reshaped_mixed [OF pos(1,2)])
    show "fst (forward ext self a)
                 = Inl (AssertionError ''Chunked prefill is not supported with flashinfer yet.'')"
      if "passes_argument_checks self a"
      using forward_passes [OF that, of ext] * by fastforce
    show "\<exists>e tr. forward ext self a = (Inl e, tr) \<and> cache_writes tr = [] \<and> kernel_paths tr = []"
    proof (cases "passes_argument_checks self a")
      case True
      from forward_passes [OF True, of ext] * obtain q k v where
        "forward ext self a =
          (Inl (AssertionError ''Chunked prefill is not supported with flashinfer yet.''),
           [Reshape q, Reshape k, Reshape v])" by blast
      then show ?thesis by simp
    next
      case False
      from forward_fails_checks [OF False, of ext] show ?thesis by auto
    qed
  qed
  have one: "(num_prefill_tokens (attn_metadata a) = 0) \<noteq> (num_decode_tokens (attn_metadata a) = 0)"
    if "forward ext self a = (Inr out, tr)" for out tr
  proof -
    from mixed that have "\<not> (num_prefill_tokens (attn_metadata a) \<noteq> 0 \<and> num_decode_tokens (attn_metadata a) \<noteq> 0)"
      by auto
    moreover have "\<not> (num_prefill_tokens (attn_metadata a) = 0 \<and> num_decode_tokens (attn_metadata a) = 0)"
      using forward_returns_nonempty [OF that] assms by (auto simp: consistent_counts_def)
    ultimately show ?thesis by blast
  qed
  show ?thesis using mixed chunked dm one by blast
qed

theorem forward_rejects_mixed_batch_witness:
  "consistent_counts (attn_metadata mixed_call) \<and>
   num_prefill_tokens (attn_metadata mixed_call) = 4 \<and>
   num_decode_tokens (attn_metadata mixed_call) = 1 \<and>
   forward quiet_externals impl8 mixed_call
     = (Inl (AssertionError ''Chunked prefill is not supported with flashinfer yet.''),
        [Reshape (gpu_tensor 50 [4, 8, 64] []), Reshape (gpu_tensor 51 [4, 8, 64] []),
         Reshape (gpu_tensor 52 [4, 8, 64] [])]) \<and>
   decode_metadata (attn_metadata mixed_call) = Inl (AssertionError '''') \<and>
   consistent_counts (attn_metadata decode_call) \<and>
   returns (fst (forward quiet_externals impl8 decode_call)) \<and>
   num_prefill_tokens (attn_metadata decode_call) = 0 \<and>
   num_decode_tokens (attn_metadata decode_call) = 2"
proof -
  have c1: "consistent_counts (attn_metadata mixed_call)"
    and c2: "consistent_counts (attn_metadata decode_call)"
    by (simp_all add: consistent_counts_def mixed_call_def concrete_defs)
  have run: "forward quiet_externals impl8 mixed_call
     = (Inl (AssertionError ''Chunked prefill is not supported with flashinfer yet.''),
        [Reshape (gpu_tensor 50 [4, 8, 64] []), Reshape (gpu_tensor 51 [4, 8, 64] []),
         Reshape (gpu_tensor 52 [4, 8, 64] [])])"
    by (simp add: forward_defs mixed_call_def concrete_defs)
  have ok: "returns (fst (forward quiet_externals impl8 decode_call))"
    by (simp add: forward_defs mixed_call_def concrete_defs returns_def)
  from forward_rejects_mixed_batch [OF c1, of quiet_externals impl8]
    forward_rejects_mixed_batch [OF c2, of quiet_externals impl8]
  show ?thesis using c1 c2 run ok by (simp add: mixed_call_def concrete_defs)
qed

text \<open>
  C3. Whatever the other fields are, construction with a head dimension outside
  64, 128, 256 raises the ValueError of \<^verbatim>\<open>__post_init__\<close>.
\<close>

theorem post_init_rejects_unsupported_head_dim:
  assumes "h \<notin> {64, 128, 256}"
  shows "post_init (self\<lparr>head_dim := Some h\<rparr>)
           = Inl (ValueError ''Only [64, 128, 256] are supported for head_dim,'')"
  using assms by (simp add: post_init_def get_supported_head_sizes_def)

theorem post_init_rejects_unsupported_head_dim_witness:
  "(96::int) \<notin> {64, 128, 256} \<and>
   post_init (decode_batch\<lparr>head_dim := Some 96\<rparr>)
     = Inl (ValueError ''Only [64, 128, 256] are supported for head_dim,'')"
  using post_init_rejects_unsupported_head_dim [of 96 decode_batch] by simp

text \<open>
  C4, as the code has it. Outside graph-capture mode and with one of the three page arrays
  absent, \<^verbatim>\<open>begin_forward\<close> fails an assertion, leaving the metadata and the sessions as
  they were, when the batch has no prefill tokens, and also when it has prefill tokens and
  the page indices are present. When the batch has prefill tokens and the page indices are
  absent it returns at once: nothing is changed and no session is planned.
\<close>

theorem begin_forward_missing_page_arrays:
  assumes "\<not> use_cuda_graph m"
    and "paged_kv_indices m = None \<or> paged_kv_indptr m = None \<or> paged_kv_last_page_len m = None"
  shows "begin_forward m w =
     (if 0 < num_prefill_tokens m \<and> paged_kv_indices m = None then (Inr (), m, w)
      else (Inl (AssertionError ''''), m, w))"
  using assms
  by (auto simp: begin_forward_def page_arrays_to_device_absent split: option.splits)

theorem begin_forward_missing_page_arrays_witness:
  "\<not> use_cuda_graph (decode_batch\<lparr>paged_kv_indptr := None\<rparr>) \<and>
   paged_kv_indptr (decode_batch\<lparr>paged_kv_indptr := None\<rparr>) = None \<and>
   begin_forward (decode_batch\<lparr>paged_kv_indptr := None\<rparr>) idle_world
     = (Inl (AssertionError ''''), decode_batch\<lparr>paged_kv_indptr := None\<rparr>, idle_world)"
proof -
  have h: "\<not> use_cuda_graph (decode_batch\<lparr>paged_kv_indptr := None\<rparr>)"
    "paged_kv_indices (decode_batch\<lparr>paged_kv_indptr := None\<rparr>) = None \<or>
     paged_kv_indptr (decode_batch\<lparr>paged_kv_indptr := None\<rparr>) = None \<or>
     paged_kv_last_page_len (decode_batch\<lparr>paged_kv_indptr := None\<rparr>) = None"
    by (simp_all add: decode_batch_def)
  from begin_forward_missing_page_arrays [OF h, of idle_world] show ?thesis
    by (simp add: decode_batch_def)
qed

text \<open>
  C4 as stated fails: in a profiling pass (prefill tokens, no page arrays, no capture)
  \<^verbatim>\<open>begin_forward\<close> returns normally and the prefill session stays without a plan.
\<close>

theorem begin_forward_profiling_counterexample:
  "\<not> use_cuda_graph profiling_batch \<and>
   paged_kv_indices profiling_batch = None \<and>
   paged_kv_indptr profiling_batch = None \<and>
   paged_kv_last_page_len profiling_batch = None \<and>
   prefill_wrapper profiling_batch = Some 0 \<and>
   begin_forward profiling_batch idle_world = (Inr (), profiling_batch, idle_world) \<and>
   plans (sessions idle_world 0) = []"
  by (simp add: begin_forward_def profiling_batch_def prefill_batch_def idle_world_def)

text \<open>
  C5. \<^verbatim>\<open>begin_forward\<close> changes no field of the metadata other than the three page
  arrays. Outside graph-capture mode, a call that returns on metadata carrying page
  indices leaves each of the three arrays on the device, with the shape and contents it
  had, an array that was there already being the same tensor. In graph-capture mode with
  the arrays resident on the device, the metadata is left as it is and no tensor is
  allocated, so the identities of the arrays are unchanged.
\<close>

theorem begin_forward_transfer:
  assumes "begin_forward m w = (r, m', w')"
  shows "(\<exists>i p l. m' = m\<lparr>paged_kv_indices := i, paged_kv_indptr := p, paged_kv_last_page_len := l\<rparr>) \<and>
    (r = Inr () \<and> \<not> use_cuda_graph m \<and> paged_kv_indices m \<noteq> None \<longrightarrow>
       moved_to (device m) (paged_kv_indices m) (paged_kv_indices m') \<and>
       moved_to (device m) (paged_kv_indptr m) (paged_kv_indptr m') \<and>
       moved_to (device m) (paged_kv_last_page_len m) (paged_kv_last_page_len m')) \<and>
    (use_cuda_graph m \<and> resident (device m) (paged_kv_indices m) \<and>
     resident (device m) (paged_kv_indptr m) \<and> resident (device m) (paged_kv_last_page_len m) \<longrightarrow>
       m' = m \<and> next_tid w' = next_tid w)"
proof -
  have same: "\<exists>i p l. m = m\<lparr>paged_kv_indices := i, paged_kv_indptr := p, paged_kv_last_page_len := l\<rparr>"
  proof -
    have "m = m\<lparr>paged_kv_indices := paged_kv_indices m, paged_kv_indptr := paged_kv_indptr m,
                     paged_kv_last_page_len := paged_kv_last_page_len m\<rparr>" by simp
    then show ?thesis by blast
  qed
  obtain r1 m1 w1 where pa: "page_arrays_to_device m w = (r1, m1, w1)"
    by (cases "page_arrays_to_device m w")
  note fr = page_arrays_to_device_frame [OF pa]
  have m': "m' = m \<or> m' = m1"
    using assms pa
    by (auto simp: begin_forward_def split: if_splits option.splits sum.splits)
  have frame: "\<exists>i p l. m' = m\<lparr>paged_kv_indices := i, paged_kv_indptr := p, paged_kv_last_page_len := l\<rparr>"
    using m' same fr by blast
  have moved: "moved_to (device m) (paged_kv_indices m) (paged_kv_indices m') \<and>
       moved_to (device m) (paged_kv_indptr m) (paged_kv_indptr m') \<and>
       moved_to (device m) (paged_kv_last_page_len m) (paged_kv_last_page_len m')"
    if ok: "r = Inr ()" and nc: "\<not> use_cuda_graph m" and idx: "paged_kv_indices m \<noteq> None"
  proof -
    have run: "r1 = Inr () \<and> m' = m1"
      using assms pa ok nc idx
      by (auto simp: begin_forward_def split: if_splits option.splits sum.splits)
    then have pres: "paged_kv_indices m \<noteq> None" "paged_kv_indptr m \<noteq> None"
      "paged_kv_last_page_len m \<noteq> None"
      using page_arrays_to_device_result(3) [OF pa, of "()"] by simp_all
    from page_arrays_to_device_moved [OF pa pres] run show ?thesis by simp
  qed
  have stable: "m' = m \<and> next_tid w' = next_tid w"
    if cg: "use_cuda_graph m" and res: "resident (device m) (paged_kv_indices m)"
      "resident (device m) (paged_kv_indptr m)" "resident (device m) (paged_kv_last_page_len m)"
  proof -
    from page_arrays_to_device_resident [OF res, of w] pa have "m1 = m" "w1 = w" by simp_all
    with assms pa cg show ?thesis
      by (auto simp: begin_forward_def replan_next_tid split: if_splits option.splits sum.splits)
  qed
  show ?thesis using frame moved stable by blast
qed

theorem begin_forward_transfer_witness:
  "\<not> use_cuda_graph decode_batch \<and>
   paged_kv_indices decode_batch = Some (host_tensor 10 [3] [2, 5, 7]) \<and>
   fst (begin_forward decode_batch idle_world) = Inr () \<and>
   paged_kv_indices (fst (snd (begin_forward decode_batch idle_world)))
     = Some (gpu_tensor 100 [3] [2, 5, 7]) \<and>
   paged_kv_indptr (fst (snd (begin_forward decode_batch idle_world)))
     = Some (gpu_tensor 101 [3] [0, 2, 3]) \<and>
   paged_kv_last_page_len (fst (snd (begin_forward decode_batch idle_world)))
     = Some (gpu_tensor 102 [2] [3, 9]) \<and>
   use_cuda_graph captured_batch \<and>
   resident (device captured_batch) (paged_kv_indices captured_batch) \<and>
   resident (device captured_batch) (paged_kv_indptr captured_batch) \<and>
   resident (device captured_batch) (paged_kv_last_page_len captured_batch) \<and>
   fst (snd (begin_forward captured_batch idle_world)) = captured_batch \<and>
   next_tid (snd (snd (begin_forward captured_batch idle_world))) = 100"
proof -
  obtain r m' w' where e1: "begin_forward decode_batch idle_world = (r, m', w')"
    by (cases "begin_forward decode_batch idle_world")
  obtain r2 m2 w2 where e2: "begin_forward captured_batch idle_world = (r2, m2, w2)"
    by (cases "begin_forward captured_batch idle_world")
  have v1: "r = Inr ()"
    "paged_kv_indices m' = Some (gpu_tensor 100 [3] [2, 5, 7])"
    "paged_kv_indptr m' = Some (gpu_tensor 101 [3] [0, 2, 3])"
    "paged_kv_last_page_len m' = Some (gpu_tensor 102 [2] [3, 9])"
    using e1 by (auto simp: begin_forward_defs concrete_defs)
  have h1: "\<not> use_cuda_graph decode_batch"
    "paged_kv_indices decode_batch = Some (host_tensor 10 [3] [2, 5, 7])"
    by (simp_all add: decode_batch_def)
  have h2: "use_cuda_graph captured_batch"
    "resident (device captured_batch) (paged_kv_indices captured_batch)"
    "resident (device captured_batch) (paged_kv_indptr captured_batch)"
    "resident (device captured_batch) (paged_kv_last_page_len captured_batch)"
    by (simp_all add: captured_batch_def decode_batch_def resident_def gpu_tensor_def)
  from begin_forward_transfer [OF e2] h2 have "m2 = captured_batch"
    "next_tid w2 = next_tid idle_world"
    by simp_all
  with begin_forward_transfer [OF e1] v1 h1 h2 e1 e2 show ?thesis
    by (simp add: idle_world_def)
qed

text \<open>
  C6, as the code has it. A sliding-window request is rejected by the constructor with a
  ValueError. Construction succeeds whenever no sliding window is requested and
  \<^verbatim>\<open>num_kv_heads\<close> is nonzero and divides \<^verbatim>\<open>num_heads\<close>; the object then holds the
  arguments, the slopes as a float32 tensor. A key or value scale other
  than 1 never reaches the constructor: it is an argument of \<^verbatim>\<open>forward\<close>, whose first
  assertion rejects it before any other work.
\<close>

theorem configuration_checks:
  "(window \<noteq> None \<longrightarrow>
      init float32_tensor n_heads h_size sc n_kv_heads slopes window cache_dtype bp
        = Inl (ValueError ''Sliding window is not supported in FlashInfer.'')) \<and>
   (window = None \<and> n_kv_heads \<noteq> 0 \<and> n_heads mod n_kv_heads = 0 \<longrightarrow>
      init float32_tensor n_heads h_size sc n_kv_heads slopes window cache_dtype bp
        = Inr \<lparr>num_heads = n_heads, head_size = h_size, scale = sc,
               impl_num_kv_heads = n_kv_heads,
               alibi_slopes = map_option float32_tensor slopes, sliding_window = (-1, -1),
               kv_cache_dtype = cache_dtype, num_queries_per_kv = n_heads div n_kv_heads\<rparr>) \<and>
   (\<not> (k_scale a = 1 \<and> v_scale a = 1) \<longrightarrow>
      forward ext self a
        = (Inl (AssertionError ''key/v_scale is not supported in FlashInfer.''), []))"
  by (simp add: init_def forward_def split: option.splits)

theorem configuration_checks_witness:
  "init float32_exact 8 64 (1 / 8) 8 None (Some 4096) ''auto'' (None :: unit option)
     = Inl (ValueError ''Sliding window is not supported in FlashInfer.'') \<and>
   init float32_exact 8 64 (1 / 8) 8 None None ''auto'' (None :: unit option) = Inr impl8 \<and>
   init float32_exact 8 64 (1 / 8) 8 (Some [1 / 2, 1 / 4]) None ''auto'' (None :: unit option)
     = Inr (impl8\<lparr>alibi_slopes := Some [1 / 2, 1 / 4]\<rparr>) \<and>
   forward quiet_externals impl8 (prefill_call\<lparr>v_scale := 1 / 2\<rparr>)
     = (Inl (AssertionError ''key/v_scale is not supported in FlashInfer.''), [])"
  using configuration_checks [of "Some 4096" float32_exact 8 64 "1 / 8" 8 None "''auto''"
      "None :: unit option" "prefill_call\<lparr>v_scale := 1 / 2\<rparr>" quiet_externals impl8]
    configuration_checks [of None float32_exact 8 64 "1 / 8" 8 None "''auto''"
      "None :: unit option" "prefill_call\<lparr>v_scale := 1 / 2\<rparr>" quiet_externals impl8]
    configuration_checks [of None float32_exact 8 64 "1 / 8" 8 "Some [1 / 2, 1 / 4]" "''auto''"
      "None :: unit option" "prefill_call\<lparr>v_scale := 1 / 2\<rparr>" quiet_externals impl8]
  by (simp add: impl8_def prefill_call_def float32_exact_def)

text \<open>
  C6 as stated fails: construction succeeds, and the key scale of 2 is rejected only when
  \<^verbatim>\<open>forward\<close> is called with it.
\<close>

theorem scale_checked_at_call_time_counterexample:
  "init float32_exact 8 64 (1 / 8) 8 None None ''auto'' (None :: unit option) = Inr impl8 \<and>
   k_scale (decode_call\<lparr>k_scale := 2\<rparr>) = 2 \<and>
   forward quiet_externals impl8 (decode_call\<lparr>k_scale := 2\<rparr>)
     = (Inl (AssertionError ''key/v_scale is not supported in FlashInfer.''), [])"
  by (simp add: init_def impl8_def forward_def decode_call_def)

text \<open>
  C7, as the code has it. A call whose attention type is not the decoder one is rejected
  before any reshape, cache write or kernel invocation: with NotImplementedError when both
  scales are 1, and otherwise by the scale assertion, which comes first.
\<close>

theorem forward_rejects_non_decoder:
  assumes "attn_type a \<noteq> DECODER"
  shows "forward ext self a =
     (Inl (if k_scale a = 1 \<and> v_scale a = 1
           then NotImplementedError
             ''Encoder self-attention and encoder/decoder cross-attention are not implemented for FlashInferImpl''
           else AssertionError ''key/v_scale is not supported in FlashInfer.''), [])"
  using assms by (simp add: forward_def)

theorem forward_rejects_non_decoder_witness:
  "attn_type (decode_call\<lparr>attn_type := ENCODER_DECODER\<rparr>) \<noteq> DECODER \<and>
   forward quiet_externals impl8 (decode_call\<lparr>attn_type := ENCODER_DECODER\<rparr>) =
     (Inl (NotImplementedError
       ''Encoder self-attention and encoder/decoder cross-attention are not implemented for FlashInferImpl''), [])"
  using forward_rejects_non_decoder [of "decode_call\<lparr>attn_type := ENCODER_DECODER\<rparr>" quiet_externals impl8]
  by (simp add: decode_call_def)

text \<open>
  C7 as stated fails: with an encoder attention type and a key scale of 2 the error is the
  scale assertion, not NotImplementedError.
\<close>

theorem encoder_call_with_scale_counterexample:
  "attn_type (decode_call\<lparr>attn_type := ENCODER, k_scale := 2\<rparr>) = ENCODER \<and>
   forward quiet_externals impl8 (decode_call\<lparr>attn_type := ENCODER, k_scale := 2\<rparr>) =
     (Inl (AssertionError ''key/v_scale is not supported in FlashInfer.''), [])"
  by (simp add: forward_def decode_call_def)

text \<open>
  C8. A second call of \<^verbatim>\<open>begin_forward\<close>, on the metadata and the world that the first
  call left, gives the same result, the same metadata and the same world. After a call
  that returns, the session it planned holds exactly one plan, the one built from the
  metadata as the call left it; and if no session held more than one plan before the call,
  none does after it.
\<close>

theorem begin_forward_twice:
  assumes "begin_forward m w = (r, m', w')"
  shows "begin_forward m' w' = (r, m', w') \<and>
    (r = Inr () \<and> 0 < num_prefill_tokens m \<and> paged_kv_indices m \<noteq> None \<longrightarrow>
       (\<exists>pw. prefill_wrapper m = Some pw \<and> plans (sessions w' pw) = [prefill_plan m'])) \<and>
    (r = Inr () \<and> \<not> 0 < num_prefill_tokens m \<longrightarrow>
       (\<exists>dw. decode_wrapper m = Some dw \<and> plans (sessions w' dw) = [decode_plan m'])) \<and>
    ((\<forall>x. length (plans (sessions w x)) \<le> 1) \<longrightarrow> (\<forall>x. length (plans (sessions w' x)) \<le> 1))"
proof -
  have idem: "begin_forward m' w' = (r, m', w')"
    by (rule begin_forward_idem [OF assms])
  from assms show ?thesis
  proof (cases rule: begin_forward_cases)
    case early
    then show ?thesis using idem by simp
  next
    case (failed e)
    then show ?thesis using idem by simp
  next
    case (prefill pw)
    then show ?thesis using idem by simp
  next
    case (decode dw)
    then show ?thesis using idem by simp
  qed
qed

theorem begin_forward_twice_witness:
  "plans (sessions planned_world 1) = [decode_plan decode_batch] \<and>
   fst (begin_forward decode_batch planned_world) = Inr () \<and>
   begin_forward (fst (snd (begin_forward decode_batch planned_world)))
                 (snd (snd (begin_forward decode_batch planned_world)))
     = begin_forward decode_batch planned_world \<and>
   plans (sessions (snd (snd (begin_forward decode_batch planned_world))) 1)
     = [decode_plan (fst (snd (begin_forward decode_batch planned_world)))] \<and>
   plan_indices (decode_plan (fst (snd (begin_forward decode_batch planned_world))))
     = Some (gpu_tensor 100 [3] [2, 5, 7])"
proof -
  obtain r m' w' where e: "begin_forward decode_batch planned_world = (r, m', w')"
    by (cases "begin_forward decode_batch planned_world")
  have p0: "plans (sessions planned_world 1) = [decode_plan decode_batch]"
    by (simp add: planned_world_def replan_sessions)
  have r: "r = Inr ()" and i: "paged_kv_indices m' = Some (gpu_tensor 100 [3] [2, 5, 7])"
    using e by (auto simp: begin_forward_defs concrete_defs planned_world_def)
  have d: "\<not> 0 < num_prefill_tokens decode_batch" "decode_wrapper decode_batch = Some 1"
    by (simp_all add: decode_batch_def)
  from begin_forward_twice [OF e] r d
  have "begin_forward m' w' = (r, m', w')" "plans (sessions w' 1) = [decode_plan m']"
    by simp_all
  then show ?thesis using e p0 r i by (simp add: decode_plan_def)
qed

text \<open>
  C9. For every metadata and every \<^verbatim>\<open>skip_fields\<close> argument, also the absent one, the
  dictionary has no entry for \<^verbatim>\<open>prefill_wrapper\<close> and none for \<^verbatim>\<open>decode_wrapper\<close>,
  provided the inherited method leaves out the names it is told to skip.
\<close>

theorem asdict_zerocopy_excludes_sessions:
  assumes "\<And>m s k. k \<in> s \<Longrightarrow> base m s k = None"
  shows "asdict_zerocopy base self skip_fields ''prefill_wrapper'' = None \<and>
         asdict_zerocopy base self skip_fields ''decode_wrapper'' = None"
  by (simp add: asdict_skip_set assms)

theorem asdict_zerocopy_excludes_sessions_witness:
  "asdict_zerocopy base_asdict_zerocopy decode_batch None ''prefill_wrapper'' = None \<and>
   asdict_zerocopy base_asdict_zerocopy decode_batch None ''decode_wrapper'' = None \<and>
   asdict_zerocopy base_asdict_zerocopy decode_batch (Some {''device''}) ''decode_wrapper'' = None \<and>
   asdict_zerocopy base_asdict_zerocopy decode_batch None ''page_size'' = Some (IntV 16)"
proof -
  have "asdict_zerocopy base_asdict_zerocopy decode_batch None ''page_size'' = Some (IntV 16)"
    by (simp add: asdict_zerocopy_def base_asdict_zerocopy_def fields_def decode_batch_def optional_def)
  then show ?thesis
    using asdict_zerocopy_excludes_sessions [of base_asdict_zerocopy decode_batch None]
      asdict_zerocopy_excludes_sessions [of base_asdict_zerocopy decode_batch "Some {''device''}"]
    by (simp add: base_asdict_skips)
qed

text \<open>
  C10. For an empty batch (no prefill tokens, no decode tokens, no prefill requests)
  reading \<^verbatim>\<open>prefill_metadata\<close> fails its assertion, and every call of \<^verbatim>\<open>forward\<close> on
  it raises without having invoked a kernel.
\<close>

theorem empty_batch_never_dispatches:
  assumes "num_prefill_tokens (attn_metadata a) = 0" "num_decode_tokens (attn_metadata a) = 0"
    "num_prefills (attn_metadata a) = 0"
  shows "prefill_metadata (attn_metadata a) = Inl (AssertionError '''') \<and>
         (\<exists>e tr. forward ext self a = (Inl e, tr) \<and> kernel_paths tr = [])"
proof -
  have pm: "prefill_metadata (attn_metadata a) = Inl (AssertionError '''')"
    using assms by (simp add: prefill_metadata_def)
  have "\<exists>e tr. forward ext self a = (Inl e, tr) \<and> kernel_paths tr = []"
  proof (cases "passes_argument_checks self a")
    case False
    from forward_fails_checks [OF False, of ext] show ?thesis by auto
  next
    case True
    from forward_passes [OF True] obtain n h q k v where
      fw: "forward ext self a =
        (fst (forward_reshaped ext self a n h q k v),
         [Reshape q, Reshape k, Reshape v] @ snd (forward_reshaped ext self a n h q k v))"
      by blast
    have di: "dispatch ext self a q k v = (Inl (AssertionError ''''), [])"
      using assms by (simp add: dispatch_empty)
    obtain r1 tr1 where wc: "write_cache ext self a k v = (r1, tr1)"
      by (cases "write_cache ext self a k v")
    have k1: "kernel_paths tr1 = []"
      using write_cache_no_kernel [of ext self a k v] wc by simp
    have "\<exists>e. forward_reshaped ext self a n h q k v = (Inl e, tr1)"
      using assms wc di by (cases r1) (simp_all add: forward_reshaped_def)
    then show ?thesis using fw k1 by (auto simp: kernel_paths_append)
  qed
  with pm show ?thesis by simp
qed

theorem empty_batch_never_dispatches_witness:
  "num_prefill_tokens (attn_metadata empty_call) = 0 \<and>
   num_decode_tokens (attn_metadata empty_call) = 0 \<and>
   num_prefills (attn_metadata empty_call) = 0 \<and>
   prefill_metadata (attn_metadata empty_call) = Inl (AssertionError '''') \<and>
   forward quiet_externals impl8 empty_call =
     (Inl (AssertionError ''''),
      [Reshape (gpu_tensor 40 [2, 8, 64] []), Reshape (gpu_tensor 41 [2, 8, 64] []),
       Reshape (gpu_tensor 42 [2, 8, 64] []), CacheWrite cache4])"
proof -
  have run: "forward quiet_externals impl8 empty_call =
     (Inl (AssertionError ''''),
      [Reshape (gpu_tensor 40 [2, 8, 64] []), Reshape (gpu_tensor 41 [2, 8, 64] []),
       Reshape (gpu_tensor 42 [2, 8, 64] []), CacheWrite cache4])"
    by (simp add: forward_defs empty_call_def concrete_defs)
  have h: "num_prefill_tokens (attn_metadata empty_call) = 0"
    "num_decode_tokens (attn_metadata empty_call) = 0"
    "num_prefills (attn_metadata empty_call) = 0"
    by (simp_all add: empty_call_def concrete_defs)
  from empty_batch_never_dispatches [OF h, of quiet_externals impl8] show ?thesis
    using run h by simp
qed

end
